theory Spec2Isabelle
  imports Main "HOL-Library.Sublist"
begin

section \<open>Strings of the JavaScript runtime\<close>

text \<open>
  The program is a React front end (\<^verbatim>\<open>App\<close>) and a service module
  (\<^verbatim>\<open>generateEmpenhoDescription\<close>). Its texts are JavaScript strings, sequences of
  UTF-16 code units; they are embedded as HOL strings, one \<^typ>\<open>char\<close> for one code
  unit, which covers the units U+0000 to U+00FF (ASCII and Latin-1, the letters of the
  Portuguese texts the program handles). The string methods the program calls are
  built-ins of the runtime, not code of the repository; they are written out here as
  ECMA-262 and the Unicode case tables fix them on these units.

  \<^verbatim>\<open>toUpperCase\<close> works unit by unit: \<^verbatim>\<open>a\<close>..\<^verbatim>\<open>z\<close> and the accented small letters
  U+00E0..U+00FE (the division sign U+00F7 apart) move down by 32, the sharp s U+00DF
  becomes \<^verbatim>\<open>SS\<close>, every other unit stays. Two units have a capital beyond U+00FF
  (the micro sign U+00B5 and U+00FF, y with diaeresis), which a \<^typ>\<open>char\<close> cannot
  hold: the embedding leaves them as they are, and is not the runtime on texts that
  contain them.

  \<^verbatim>\<open>trim\<close> strips the white space and line terminators of ECMA-262 from both ends:
  TAB, LF, VT, FF, CR, SPACE and the no-break space U+00A0.
\<close>

definition toUpperChar :: "char \<Rightarrow> string" where
  "toUpperChar c =
     (let n = (of_char c :: nat)
      in if 97 \<le> n \<and> n \<le> 122 then [char_of (n - 32)]
         else if n = 223 then ''SS''
         else if 224 \<le> n \<and> n \<le> 254 \<and> n \<noteq> 247 then [char_of (n - 32)]
         else [c])"

definition toUpperCase :: "string \<Rightarrow> string" where
  "toUpperCase s = concat (map toUpperChar s)"

definition isWhiteSpace :: "char \<Rightarrow> bool" where
  "isWhiteSpace c \<longleftrightarrow> (of_char c :: nat) \<in> {9, 10, 11, 12, 13, 32, 160}"

definition trimStart :: "string \<Rightarrow> string" where
  "trimStart s = dropWhile isWhiteSpace s"

definition trimEnd :: "string \<Rightarrow> string" where
  "trimEnd s = rev (dropWhile isWhiteSpace (rev s))"

definition trim :: "string \<Rightarrow> string" where
  "trim s = trimEnd (trimStart s)"

text \<open>\<^verbatim>\<open>text.startsWith(p)\<close>\<close>

definition startsWith :: "string \<Rightarrow> string \<Rightarrow> bool" where
  "startsWith s p \<longleftrightarrow> prefix p s"

text \<open>
  \<^verbatim>\<open>s.replace(/pat/g, '')\<close> for a pattern that is a literal: the matches are found
  from left to right, each search resuming behind the previous match, and every
  match is deleted. (A global regular expression whose match is empty advances by
  one unit; the empty pattern therefore deletes nothing.)
\<close>

function replaceAllEmpty :: "string \<Rightarrow> string \<Rightarrow> string" where
  "replaceAllEmpty pat [] = []"
| "replaceAllEmpty pat (c # cs) =
     (if pat \<noteq> [] \<and> prefix pat (c # cs)
      then replaceAllEmpty pat (drop (length pat) (c # cs))
      else c # replaceAllEmpty pat cs)"
  by pat_completeness auto
termination
  by (relation "measure (\<lambda>(pat, s). length s)") auto

section \<open>The service: \<^verbatim>\<open>generateEmpenhoDescription\<close>\<close>

definition requiredPrefix :: string where
  "requiredPrefix = ''PELA DESPESA EMPENHADA''"

text \<open>
  Lines 353 to 369 of the service, the part of \<^verbatim>\<open>generateEmpenhoDescription\<close> that
  runs on the text of the response:
  \<^verbatim>\<open>
    text = text.toUpperCase().trim();
    text = text.replace(/\*\*/g, '').replace(/\*/g, '');
    const requiredPrefix = "PELA DESPESA EMPENHADA";
    if (!text.startsWith(requiredPrefix)) {
      if (text.startsWith("REFERENTE")) {
        text = "PELA DESPESA EMPENHADA " + text;
      } else {
         text = `${requiredPrefix} REFERENTE A ${text}`;
      }
    }
    return text;
  \<close>
  The service has no function of its own for these lines. They are \<open>normalizeText\<close>
  here (the output normalizer of the specification), and \<open>cleanText\<close> is their first
  two statements.
\<close>

definition cleanText :: "string \<Rightarrow> string" where
  "cleanText text0 =
     (let text1 = trim (toUpperCase text0)
      in replaceAllEmpty ''*'' (replaceAllEmpty ''**'' text1))"

definition normalizeText :: "string \<Rightarrow> string" where
  "normalizeText text0 =
     (let text = cleanText text0
      in if \<not> startsWith text requiredPrefix
         then (if startsWith text ''REFERENTE''
               then ''PELA DESPESA EMPENHADA '' @ text
               else requiredPrefix @ '' REFERENTE A '' @ text)
         else text)"

text \<open>
  What the awaited calls of one generation attempt do. \<^verbatim>\<open>fileToGenerativePart\<close>
  rejects with whatever the \<^verbatim>\<open>FileReader\<close> reports, the call
  \<^verbatim>\<open>ai.models.generateContent\<close> rejects with whatever the transport or the model
  raises, and a response carries \<^verbatim>\<open>response.text\<close>, which is \<^verbatim>\<open>undefined\<close> when
  the model sent no text. A thrown value is an \<^verbatim>\<open>Error\<close> with its message, or some
  other value (the \<^verbatim>\<open>FileReader\<close> rejects with an event).
\<close>

datatype thrown = Error string | NotAnError

datatype outcome =
    ReadRejected thrown
  | CallRejected thrown
  | Responded "string option"

definition GenerationErrorMessage :: string where
  "GenerationErrorMessage =
     ''Falha ao processar o documento. Verifique se o arquivo '' @ [CHR 0xE9] @
     '' v'' @ [CHR 0xE1] @ ''lido e tente novamente.''"

text \<open>\<^verbatim>\<open>response.text || ""\<close>: \<^verbatim>\<open>undefined\<close> and the empty string are both falsy.\<close>

definition orEmpty :: "string option \<Rightarrow> string" where
  "orEmpty r = (case r of None \<Rightarrow> [] | Some t \<Rightarrow> (if t = [] then [] else t))"

text \<open>
  The whole function. The first component is what \<^verbatim>\<open>console.error\<close> received, the
  second what the caller gets: \<open>Inl\<close> the value thrown to it, \<open>Inr\<close> the text
  returned.
\<close>

definition generateEmpenhoDescription :: "outcome \<Rightarrow> thrown list \<times> (thrown + string)" where
  "generateEmpenhoDescription out =
     (case out of
        ReadRejected e \<Rightarrow> ([e], Inl (Error GenerationErrorMessage))
      | CallRejected e \<Rightarrow> ([e], Inl (Error GenerationErrorMessage))
      | Responded r \<Rightarrow> ([], Inr (normalizeText (orEmpty r))))"

section \<open>The session: the state of \<^verbatim>\<open>App\<close>\<close>

datatype ProcessingStatus = IDLE | PROCESSING | SUCCESS | ERROR

text \<open>
  The fields of a browser \<^verbatim>\<open>File\<close> that the program reads: \<^verbatim>\<open>file.name\<close>,
  \<^verbatim>\<open>file.size\<close> (a count of bytes) and \<^verbatim>\<open>file.type\<close> (the declared MIME type).
\<close>

record File =
  file_name :: string
  file_size :: nat
  file_type :: string

text \<open>\<^verbatim>\<open>FileData\<close> of \<^verbatim>\<open>types.ts\<close>; \<open>file0\<close> is its field \<^verbatim>\<open>file\<close>.\<close>

record FileData =
  file0 :: File
  previewUrl :: "string option"

text \<open>The six \<^verbatim>\<open>useState\<close> cells of the component.\<close>

record App =
  status :: ProcessingStatus
  fileData :: "FileData option"
  generatedText :: string
  errorMsg :: "string option"
  isEditing :: bool
  isDragging :: bool

definition initialApp :: App where
  "initialApp =
     \<lparr>status = IDLE, fileData = None, generatedText = [], errorMsg = None,
      isEditing = False, isDragging = False\<rparr>"

definition tooLargeMessage :: string where
  "tooLargeMessage =
     ''O arquivo '' @ [CHR 0xE9] @ '' muito grande. O limite '' @ [CHR 0xE9] @ '' 20MB.''"

definition invalidTypeMessage :: string where
  "invalidTypeMessage =
     ''Tipo de arquivo inv'' @ [CHR 0xE1] @ ''lido. Use PDF ou Imagens (JPG, PNG).''"

definition unknownErrorMessage :: string where
  "unknownErrorMessage = ''Ocorreu um erro desconhecido.''"

definition validTypes :: "string list" where
  "validTypes =
     [''application/pdf'', ''image/png'', ''image/jpeg'', ''image/jpg'', ''image/webp'']"

definition pdfIconUrl :: string where
  "pdfIconUrl =
     ''https://upload.wikimedia.org/wikipedia/commons/8/87/PDF_file_icon.svg''"

text \<open>
  \<^verbatim>\<open>processFile\<close>. The first argument is the URL that \<^verbatim>\<open>URL.createObjectURL\<close>
  hands out for the file, which the browser chooses.
\<close>

definition processFile :: "string \<Rightarrow> File \<Rightarrow> App \<Rightarrow> App" where
  "processFile objectUrl f st =
     (if file_size f > 20 * 1024 * 1024
      then st\<lparr>errorMsg := Some tooLargeMessage\<rparr>
      else if file_type f \<notin> set validTypes
      then st\<lparr>errorMsg := Some invalidTypeMessage\<rparr>
      else
        (let previewUrl =
               (if startsWith (file_type f) ''image/'' then Some objectUrl
                else if file_type f = ''application/pdf'' then Some pdfIconUrl
                else None)
         in st\<lparr>fileData := Some \<lparr>file0 = f, previewUrl = previewUrl\<rparr>,
                errorMsg := None, status := IDLE, generatedText := []\<rparr>))"

text \<open>
  \<^verbatim>\<open>handleFileChange\<close> and \<^verbatim>\<open>handleDrop\<close>: the event carries the first file of its
  file list, if there is one.
\<close>

definition handleFileChange :: "string \<Rightarrow> File option \<Rightarrow> App \<Rightarrow> App" where
  "handleFileChange objectUrl files0 st =
     (case files0 of None \<Rightarrow> st | Some f \<Rightarrow> processFile objectUrl f st)"

definition handleDragOver :: "App \<Rightarrow> App" where
  "handleDragOver st = st\<lparr>isDragging := True\<rparr>"

definition handleDragLeave :: "App \<Rightarrow> App" where
  "handleDragLeave st = st\<lparr>isDragging := False\<rparr>"

definition handleDrop :: "string \<Rightarrow> File option \<Rightarrow> App \<Rightarrow> App" where
  "handleDrop objectUrl files0 st =
     (let st1 = st\<lparr>isDragging := False\<rparr>
      in case files0 of None \<Rightarrow> st1 | Some f \<Rightarrow> processFile objectUrl f st1)"

text \<open>
  \<^verbatim>\<open>handleProcess\<close> is asynchronous. \<open>handleProcess_begin\<close> is the part that runs
  before the \<^verbatim>\<open>await\<close>, \<open>handleProcess_resume\<close> the part that runs when the promise
  of \<^verbatim>\<open>generateEmpenhoDescription\<close> settles, on the state the session has by then.
  \<open>handleProcess\<close> is the two run back to back, nothing else touching the state in
  between.
\<close>

definition handleProcess_begin :: "App \<Rightarrow> App" where
  "handleProcess_begin st =
     (case fileData st of
        None \<Rightarrow> st
      | Some fd \<Rightarrow> st\<lparr>status := PROCESSING, errorMsg := None\<rparr>)"

definition handleProcess_resume :: "thrown + string \<Rightarrow> App \<Rightarrow> App" where
  "handleProcess_resume settled st =
     (case settled of
        Inr text \<Rightarrow> st\<lparr>generatedText := text, status := SUCCESS, isEditing := True\<rparr>
      | Inl err \<Rightarrow>
          st\<lparr>errorMsg := Some (case err of Error m \<Rightarrow> m | NotAnError \<Rightarrow> unknownErrorMessage),
             status := ERROR\<rparr>)"

definition handleProcess :: "outcome \<Rightarrow> App \<Rightarrow> App" where
  "handleProcess out st =
     (case fileData st of
        None \<Rightarrow> st
      | Some fd \<Rightarrow>
          handleProcess_resume (snd (generateEmpenhoDescription out)) (handleProcess_begin st))"

text \<open>
  \<^verbatim>\<open>handleReset\<close>. Its last statement empties the value of the file input of the
  page, which is no part of the state of the component.
\<close>

definition handleReset :: "App \<Rightarrow> App" where
  "handleReset st =
     st\<lparr>fileData := None, generatedText := [], status := IDLE, errorMsg := None,
        isEditing := False\<rparr>"

text \<open>
  The \<^verbatim>\<open>onChange\<close> handler of the result's text area, which the page shows in
  status \<^verbatim>\<open>SUCCESS\<close> only: \<^verbatim>\<open>setGeneratedText(e.target.value.toUpperCase())\<close>.
\<close>

definition textarea_onChange :: "string \<Rightarrow> App \<Rightarrow> App" where
  "textarea_onChange v st = st\<lparr>generatedText := toUpperCase v\<rparr>"

section \<open>The normalizer as the specification words it\<close>

text \<open>
  The specification describes the normalizer in three steps. They are written down
  here from its words, not from the code: (1) upper case, then trim; (2) delete the
  double asterisks, then the asterisks that remain; (3) keep a text that starts with
  the required phrase, complete one that starts with \<^verbatim>\<open>REFERENTE\<close>, wrap any other.
\<close>

fun removeDoubleAsterisks :: "string \<Rightarrow> string" where
  "removeDoubleAsterisks (a # b # s) =
     (if a = CHR ''*'' \<and> b = CHR ''*'' then removeDoubleAsterisks s
      else a # removeDoubleAsterisks (b # s))"
| "removeDoubleAsterisks s = s"

definition removeAsterisks :: "string \<Rightarrow> string" where
  "removeAsterisks s = filter (\<lambda>c. c \<noteq> CHR ''*'') s"

definition spec_step1 :: "string \<Rightarrow> string" where
  "spec_step1 s = trim (toUpperCase s)"

definition spec_step2 :: "string \<Rightarrow> string" where
  "spec_step2 s = removeAsterisks (removeDoubleAsterisks s)"

definition spec_step3 :: "string \<Rightarrow> string" where
  "spec_step3 s =
     (if prefix ''PELA DESPESA EMPENHADA'' s then s
      else if prefix ''REFERENTE'' s then ''PELA DESPESA EMPENHADA '' @ s
      else ''PELA DESPESA EMPENHADA REFERENTE A '' @ s)"

definition spec_normalize :: "string \<Rightarrow> string" where
  "spec_normalize s = spec_step3 (spec_step2 (spec_step1 s))"

section \<open>A session used as an example\<close>

text \<open>
  A PNG of 5 MB is accepted on the fresh page, and a first generation succeeds with
  the response \<^verbatim>\<open>material\<close>.
\<close>

definition scan_png :: File where
  "scan_png = \<lparr>file_name = ''scan.png'', file_size = 5000000, file_type = ''image/png''\<rparr>"

definition afterSuccess :: App where
  "afterSuccess =
     handleProcess (Responded (Some ''material'')) (processFile ''blob:1'' scan_png initialApp)"

section \<open>Facts about the string functions\<close>

lemma toUpperChar_fixed: "c \<in> set (toUpperChar d) \<Longrightarrow> toUpperChar c = [c]"
  by (auto simp: toUpperChar_def Let_def split: if_splits)

lemma set_toUpperCase: "c \<in> set (toUpperCase x) \<Longrightarrow> toUpperChar c = [c]"
  by (auto simp: toUpperCase_def toUpperChar_fixed)

lemma toUpperCase_fixed: "\<forall>c\<in>set s. toUpperChar c = [c] \<Longrightarrow> toUpperCase s = s"
  by (induction s) (simp_all add: toUpperCase_def)

lemma toUpperCase_append: "toUpperCase (a @ b) = toUpperCase a @ toUpperCase b"
  by (simp add: toUpperCase_def)

lemma set_trimEnd: "set (trimEnd s) \<subseteq> set s"
  by (metis trimEnd_def set_dropWhileD set_rev subsetI)

lemma set_trim: "set (trim s) \<subseteq> set s"
  unfolding trim_def trimStart_def
  using set_trimEnd set_dropWhileD by fastforce

lemma trimStart_id: "s \<noteq> [] \<Longrightarrow> \<not> isWhiteSpace (hd s) \<Longrightarrow> trimStart s = s"
  by (cases s) (simp_all add: trimStart_def)

text \<open>Trimming the end keeps a prefix whose last unit is no white space.\<close>

lemma trimEnd_prefix:
  assumes "prefix p s" and "p \<noteq> []" and "\<not> isWhiteSpace (last p)"
  shows "prefix p (trimEnd s)"
proof -
  from assms(1) obtain zs where s: "s = p @ zs"
    by (auto simp: prefix_def)
  from assms(2) have rp: "rev p = last p # rev (butlast p)"
    by (metis append_butlast_last_id rev_append append_Cons append_Nil rev_singleton_conv)
  have keep: "dropWhile isWhiteSpace (rev p) = rev p"
    using assms(3) by (simp add: rp)
  show ?thesis
  proof (cases "\<forall>c\<in>set (rev zs). isWhiteSpace c")
    case True
    then have "trimEnd s = p"
      by (simp add: trimEnd_def s dropWhile_append keep)
    then show ?thesis by simp
  next
    case False
    then have "trimEnd s = p @ rev (dropWhile isWhiteSpace (rev zs))"
      by (auto simp: trimEnd_def s dropWhile_append)
    then show ?thesis by simp
  qed
qed

lemma trim_keeps_prefix:
  assumes "prefix p s" and "p \<noteq> []" and "\<not> isWhiteSpace (hd p)" and "\<not> isWhiteSpace (last p)"
  shows "prefix p (trim s)"
proof -
  from assms(1,2) have "s \<noteq> []" and "hd s = hd p"
    by (auto simp: prefix_def)
  with assms(3) have "trimStart s = s"
    by (simp add: trimStart_id)
  with assms show ?thesis
    by (simp add: trim_def trimEnd_prefix)
qed

text \<open>The two replacements of the service are the two deletions of the specification.\<close>

lemma replaceAllEmpty_asterisk: "replaceAllEmpty ''*'' s = removeAsterisks s"
  by (induction s) (simp_all add: removeAsterisks_def)

lemma replaceAllEmpty_double_asterisk: "replaceAllEmpty ''**'' s = removeDoubleAsterisks s"
  by (induction s rule: removeDoubleAsterisks.induct) auto

lemma removeAsterisks_removeDoubleAsterisks:
  "removeAsterisks (removeDoubleAsterisks s) = removeAsterisks s"
  by (induction s rule: removeDoubleAsterisks.induct) (auto simp: removeAsterisks_def)

section \<open>Facts about the normalizer\<close>

lemma cleanText_filter:
  "cleanText x = filter (\<lambda>c. c \<noteq> CHR ''*'') (trim (toUpperCase x))"
  by (simp add: cleanText_def replaceAllEmpty_asterisk replaceAllEmpty_double_asterisk
      removeAsterisks_removeDoubleAsterisks)
    (simp add: removeAsterisks_def)

lemma cleanText_upper: "c \<in> set (cleanText x) \<Longrightarrow> toUpperChar c = [c]"
proof -
  assume "c \<in> set (cleanText x)"
  then have "c \<in> set (trim (toUpperCase x))"
    by (simp add: cleanText_filter)
  then have "c \<in> set (toUpperCase x)"
    using set_trim by blast
  then show ?thesis
    by (rule set_toUpperCase)
qed

lemma cleanText_no_asterisk: "CHR ''*'' \<notin> set (cleanText x)"
  by (simp add: cleanText_filter)

lemma requiredPrefix_facts:
  "requiredPrefix \<noteq> []" "\<not> isWhiteSpace (last requiredPrefix)"
  "\<not> isWhiteSpace (hd requiredPrefix)" "CHR ''*'' \<notin> set requiredPrefix"
  "toUpperCase requiredPrefix = requiredPrefix"
  by (simp_all add: requiredPrefix_def isWhiteSpace_def toUpperCase_def toUpperChar_def)

lemma normalizeText_cases:
  "normalizeText x = cleanText x \<and> prefix requiredPrefix (cleanText x)
   \<or> normalizeText x = requiredPrefix @ '' '' @ cleanText x
   \<or> normalizeText x = requiredPrefix @ '' REFERENTE A '' @ cleanText x"
proof -
  have e: "''PELA DESPESA EMPENHADA '' @ cleanText x = requiredPrefix @ '' '' @ cleanText x"
    by (simp add: requiredPrefix_def)
  show ?thesis
    unfolding normalizeText_def Let_def startsWith_def e by auto
qed

lemma normalizeText_prefix: "prefix requiredPrefix (normalizeText x)"
  using normalizeText_cases [of x] by auto

lemma normalizeText_upper: "c \<in> set (normalizeText x) \<Longrightarrow> toUpperChar c = [c]"
  using normalizeText_cases [of x] cleanText_upper [of c x]
  by (auto simp: requiredPrefix_def toUpperChar_def)

lemma normalizeText_no_asterisk: "CHR ''*'' \<notin> set (normalizeText x)"
  using normalizeText_cases [of x] cleanText_no_asterisk [of x]
  by (auto simp: requiredPrefix_def)

lemma cleanText_normalizeText: "cleanText (normalizeText x) = trim (normalizeText x)"
proof -
  let ?y = "normalizeText x"
  have up: "toUpperCase ?y = ?y"
    by (rule toUpperCase_fixed) (simp add: normalizeText_upper)
  have "CHR ''*'' \<notin> set (trim ?y)"
    using set_trim [of ?y] normalizeText_no_asterisk [of x] by blast
  then have "filter (\<lambda>c. c \<noteq> CHR ''*'') (trim ?y) = trim ?y"
    by (simp add: filter_id_conv) metis
  then show ?thesis
    by (simp add: cleanText_filter up)
qed

lemma cleanText_keeps_prefix:
  assumes "prefix requiredPrefix x"
  shows "prefix requiredPrefix (cleanText x)"
proof -
  from assms obtain r where "x = requiredPrefix @ r"
    by (auto simp: prefix_def)
  then have "prefix requiredPrefix (toUpperCase x)"
    by (simp add: toUpperCase_append requiredPrefix_facts)
  then have "prefix requiredPrefix (trim (toUpperCase x))"
    by (rule trim_keeps_prefix) (simp_all add: requiredPrefix_facts)
  then obtain zs where "trim (toUpperCase x) = requiredPrefix @ zs"
    by (auto simp: prefix_def)
  moreover have "filter (\<lambda>c. c \<noteq> CHR ''*'') requiredPrefix = requiredPrefix"
    by (simp add: requiredPrefix_def)
  ultimately show ?thesis
    by (simp add: cleanText_filter)
qed

text \<open>The normalizer on some texts, among them the examples of the specification.\<close>

lemma normalizeText_empty: "normalizeText [] = ''PELA DESPESA EMPENHADA REFERENTE A ''"
  by code_simp

lemma normalizeText_empty_twice:
  "normalizeText ''PELA DESPESA EMPENHADA REFERENTE A '' = ''PELA DESPESA EMPENHADA REFERENTE A''"
  by code_simp

lemma normalizeText_referente:
  "normalizeText ''REFERENTE A TESTE'' = ''PELA DESPESA EMPENHADA REFERENTE A TESTE''"
  by code_simp

lemma normalizeText_lower_case:
  "normalizeText ''pela despesa empenhada referente a compra de papel''
     = ''PELA DESPESA EMPENHADA REFERENTE A COMPRA DE PAPEL''"
  by code_simp

lemma normalizeText_aquisicao:
  "normalizeText (''Aquisi'' @ [CHR 0xE7, CHR 0xE3] @ ''o de **material** de limpeza'')
     = ''PELA DESPESA EMPENHADA REFERENTE A AQUISI'' @ [CHR 0xC7, CHR 0xC3] @
       ''O DE MATERIAL DE LIMPEZA''"
  by code_simp

lemma normalizeText_material:
  "normalizeText ''material'' = ''PELA DESPESA EMPENHADA REFERENTE A MATERIAL''"
  by code_simp

lemma normalizeText_edit_example:
  "normalizeText ''a **b**'' = ''PELA DESPESA EMPENHADA REFERENTE A A B''"
  by code_simp

lemma toUpperCase_edit_example: "toUpperCase ''a **b**'' = ''A **B**''"
  by code_simp

lemma normalizeText_short_example:
  "normalizeText ''Pela despesa empenhada com *material*'' = ''PELA DESPESA EMPENHADA COM MATERIAL''"
  by code_simp

section \<open>Facts about the session\<close>

lemma messages_distinct: "tooLargeMessage \<noteq> invalidTypeMessage"
  by (simp add: tooLargeMessage_def invalidTypeMessage_def)

lemma set_validTypes:
  "set validTypes =
     {''application/pdf'', ''image/png'', ''image/jpeg'', ''image/jpg'', ''image/webp''}"
  by (simp add: validTypes_def)

lemma processFile_scan_png:
  "processFile ''blob:1'' scan_png initialApp =
     \<lparr>status = IDLE, fileData = Some \<lparr>file0 = scan_png, previewUrl = Some ''blob:1''\<rparr>,
      generatedText = [], errorMsg = None, isEditing = False, isDragging = False\<rparr>"
  by (simp add: processFile_def scan_png_def initialApp_def validTypes_def startsWith_def)

lemma afterSuccess_eq:
  "afterSuccess =
     \<lparr>status = SUCCESS, fileData = Some \<lparr>file0 = scan_png, previewUrl = Some ''blob:1''\<rparr>,
      generatedText = ''PELA DESPESA EMPENHADA REFERENTE A MATERIAL'', errorMsg = None,
      isEditing = True, isDragging = False\<rparr>"
  by (simp add: afterSuccess_def processFile_scan_png handleProcess_def handleProcess_begin_def
      handleProcess_resume_def generateEmpenhoDescription_def orEmpty_def
      normalizeText_material)

section \<open>The claims\<close>

subsection \<open>The normalizer\<close>

text \<open>
  C1. The normalizer of the code is the three-step definition of the specification:
  for every text, (1) upper-casing and trimming, (2) deleting the double asterisks and
  then the asterisks that remain, (3) keeping a text that starts with
  \<^verbatim>\<open>PELA DESPESA EMPENHADA\<close>, putting \<^verbatim>\<open>PELA DESPESA EMPENHADA \<close> before one that
  starts with \<^verbatim>\<open>REFERENTE\<close> and \<^verbatim>\<open>PELA DESPESA EMPENHADA REFERENTE A \<close> before any
  other, give the text that lines 353 to 369 of the service compute. The example of
  the specification, \<^verbatim>\<open>REFERENTE A TESTE\<close>, comes out as it says.
\<close>

theorem normalizeText_refines_spec:
  "normalizeText s = spec_normalize s
   \<and> normalizeText ''REFERENTE A TESTE'' = ''PELA DESPESA EMPENHADA REFERENTE A TESTE''"
  by (simp add: normalizeText_referente)
    (simp add: normalizeText_def cleanText_def spec_normalize_def spec_step1_def
      spec_step2_def spec_step3_def replaceAllEmpty_asterisk replaceAllEmpty_double_asterisk
      startsWith_def requiredPrefix_def)

text \<open>
  C2, as the specification states it, fails: the normalizer is not idempotent. The
  empty text is normalized to \<^verbatim>\<open>PELA DESPESA EMPENHADA REFERENTE A \<close>, which ends in
  a space, and normalizing that text trims the space away.
\<close>

theorem normalizeText_not_idempotent:
  "normalizeText (normalizeText []) \<noteq> normalizeText []"
  by (simp add: normalizeText_empty normalizeText_empty_twice)

text \<open>
  C2, amended. Normalizing a normalized text trims it and does nothing else: for
  every text \<open>x\<close>, the normalizer applied to \<open>normalizeText x\<close> returns
  \<open>normalizeText x\<close> without its trailing white space. (A normalized text starts
  with the required phrase, so there is no white space to trim in front.) The two
  are equal exactly when \<open>normalizeText x\<close> does not end in white space.
\<close>

theorem normalizeText_twice: "normalizeText (normalizeText x) = trim (normalizeText x)"
proof -
  have "prefix requiredPrefix (trim (normalizeText x))"
    by (rule trim_keeps_prefix) (simp_all add: normalizeText_prefix requiredPrefix_facts)
  then show ?thesis
    by (simp add: normalizeText_def [of "normalizeText x"] Let_def cleanText_normalizeText
        startsWith_def)
qed

text \<open>
  C10. For every text the output of the normalizer starts with
  \<^verbatim>\<open>PELA DESPESA EMPENHADA\<close>. It need not start with the longer phrase
  \<^verbatim>\<open>PELA DESPESA EMPENHADA REFERENTE A\<close>: a text that already starts with
  \<^verbatim>\<open>PELA DESPESA EMPENHADA\<close> is returned as steps 1 and 2 leave it, whatever follows
  the phrase, and \<^verbatim>\<open>Pela despesa empenhada com *material*\<close> comes out as
  \<^verbatim>\<open>PELA DESPESA EMPENHADA COM MATERIAL\<close>.
\<close>

theorem normalizeText_starts_with_prefix:
  "startsWith (normalizeText x) ''PELA DESPESA EMPENHADA''
   \<and> (startsWith x ''PELA DESPESA EMPENHADA'' \<longrightarrow> normalizeText x = cleanText x)
   \<and> normalizeText ''Pela despesa empenhada com *material*''
       = ''PELA DESPESA EMPENHADA COM MATERIAL''
   \<and> \<not> startsWith (normalizeText ''Pela despesa empenhada com *material*'')
         ''PELA DESPESA EMPENHADA REFERENTE A''"
proof -
  have a: "startsWith (normalizeText x) ''PELA DESPESA EMPENHADA''"
    using normalizeText_prefix [of x] by (simp add: startsWith_def requiredPrefix_def)
  have b: "startsWith x ''PELA DESPESA EMPENHADA'' \<longrightarrow> normalizeText x = cleanText x"
    using cleanText_keeps_prefix [of x]
    by (simp add: normalizeText_def Let_def startsWith_def requiredPrefix_def)
  have c: "\<not> startsWith ''PELA DESPESA EMPENHADA COM MATERIAL''
         ''PELA DESPESA EMPENHADA REFERENTE A''"
    by (simp add: startsWith_def)
  show ?thesis
    using a b c by (simp add: normalizeText_short_example)
qed

theorem normalizeText_starts_with_prefix_witness:
  "startsWith ''PELA DESPESA EMPENHADA COM X'' ''PELA DESPESA EMPENHADA''
   \<and> normalizeText ''PELA DESPESA EMPENHADA COM X'' = cleanText ''PELA DESPESA EMPENHADA COM X''
   \<and> startsWith (normalizeText ''PELA DESPESA EMPENHADA COM X'') ''PELA DESPESA EMPENHADA''"
proof -
  have h: "startsWith ''PELA DESPESA EMPENHADA COM X'' ''PELA DESPESA EMPENHADA''"
    by (simp add: startsWith_def)
  show ?thesis
    using h normalizeText_starts_with_prefix [of "''PELA DESPESA EMPENHADA COM X''"]
    by blast
qed

subsection \<open>The validation of a file\<close>

text \<open>
  C3. Whatever the declared MIME type \<open>t\<close> of the file and whatever the state of the
  session, \<^verbatim>\<open>processFile\<close> leaves the too-large message if and only if the size is
  above \<open>20 * 1024 * 1024\<close> bytes, strictly: a file of exactly 20 MiB is not turned
  down for its size. A file above the bound changes nothing else in the session.
\<close>

theorem processFile_too_large_iff:
  "(errorMsg (processFile url (f\<lparr>file_type := t\<rparr>) st) = Some tooLargeMessage
      \<longleftrightarrow> 20 * 1024 * 1024 < file_size f)
   \<and> (20 * 1024 * 1024 < file_size f \<longrightarrow>
        processFile url (f\<lparr>file_type := t\<rparr>) st = st\<lparr>errorMsg := Some tooLargeMessage\<rparr>)"
  using messages_distinct by (simp add: processFile_def Let_def)

theorem processFile_too_large_iff_witness:
  "errorMsg (processFile ''blob:1''
      \<lparr>file_name = ''scan.pdf'', file_size = 20 * 1024 * 1024 + 1, file_type = ''application/pdf''\<rparr>
      initialApp) = Some tooLargeMessage
   \<and> errorMsg (processFile ''blob:1''
      \<lparr>file_name = ''scan.bin'', file_size = 20 * 1024 * 1024 + 1, file_type = ''application/x-unknown''\<rparr>
      initialApp) = Some tooLargeMessage
   \<and> errorMsg (processFile ''blob:1''
      \<lparr>file_name = ''scan.pdf'', file_size = 20 * 1024 * 1024, file_type = ''application/pdf''\<rparr>
      initialApp) \<noteq> Some tooLargeMessage"
  using processFile_too_large_iff [where url = "''blob:1''" and st = initialApp
      and t = "''application/pdf''" and f =
      "\<lparr>file_name = ''scan.pdf'', file_size = 20 * 1024 * 1024 + 1, file_type = ''application/pdf''\<rparr>"]
    processFile_too_large_iff [where url = "''blob:1''" and st = initialApp
      and t = "''application/x-unknown''" and f =
      "\<lparr>file_name = ''scan.bin'', file_size = 20 * 1024 * 1024 + 1, file_type = ''application/x-unknown''\<rparr>"]
    processFile_too_large_iff [where url = "''blob:1''" and st = initialApp
      and t = "''application/pdf''" and f =
      "\<lparr>file_name = ''scan.pdf'', file_size = 20 * 1024 * 1024, file_type = ''application/pdf''\<rparr>"]
  by simp

text \<open>
  C4, as the specification states it, fails: a MIME type outside the accepted ones
  does not always bring the invalid-type reason. The size is tested first (lines 20
  to 23 run before lines 26 to 30), so a file of type \<^verbatim>\<open>text/plain\<close> and of
  20 MiB and one byte is turned down with the too-large message, not with the
  invalid-type message.
\<close>

theorem oversized_invalid_type_reports_size:
  "''text/plain'' \<notin> set validTypes
   \<and> errorMsg (processFile ''blob:1''
        \<lparr>file_name = ''notes.txt'', file_size = 20 * 1024 * 1024 + 1, file_type = ''text/plain''\<rparr>
        initialApp) = Some tooLargeMessage
   \<and> errorMsg (processFile ''blob:1''
        \<lparr>file_name = ''notes.txt'', file_size = 20 * 1024 * 1024 + 1, file_type = ''text/plain''\<rparr>
        initialApp) \<noteq> Some invalidTypeMessage"
  using messages_distinct by (simp add: processFile_def set_validTypes)

text \<open>
  C4, amended. A file whose declared MIME type is none of \<^verbatim>\<open>application/pdf\<close>,
  \<^verbatim>\<open>image/png\<close>, \<^verbatim>\<open>image/jpeg\<close>, \<^verbatim>\<open>image/jpg\<close>, \<^verbatim>\<open>image/webp\<close> is always turned
  down: it does not become the file of the session and a message is left. When its
  size is within the bound of 20 MiB the message is the invalid-type message; when
  its size is above the bound the message is the too-large message. In both cases
  nothing else in the session changes.
\<close>

theorem processFile_invalid_type:
  assumes "file_type f \<notin>
     {''application/pdf'', ''image/png'', ''image/jpeg'', ''image/jpg'', ''image/webp''}"
  shows "(file_size f \<le> 20 * 1024 * 1024 \<longrightarrow>
            processFile url f st = st\<lparr>errorMsg := Some invalidTypeMessage\<rparr>)
         \<and> (20 * 1024 * 1024 < file_size f \<longrightarrow>
            processFile url f st = st\<lparr>errorMsg := Some tooLargeMessage\<rparr>)
         \<and> fileData (processFile url f st) = fileData st
         \<and> errorMsg (processFile url f st) \<noteq> None"
  using assms by (simp add: processFile_def set_validTypes)

theorem processFile_invalid_type_witness:
  "''text/plain'' \<notin> {''application/pdf'', ''image/png'', ''image/jpeg'', ''image/jpg'', ''image/webp''}
   \<and> (1024::nat) \<le> 20 * 1024 * 1024
   \<and> processFile ''blob:1''
        \<lparr>file_name = ''notes.txt'', file_size = 1024, file_type = ''text/plain''\<rparr> initialApp
      = initialApp\<lparr>errorMsg := Some invalidTypeMessage\<rparr>
   \<and> (20 * 1024 * 1024 :: nat) < 20 * 1024 * 1024 + 1
   \<and> processFile ''blob:1''
        \<lparr>file_name = ''notes.txt'', file_size = 20 * 1024 * 1024 + 1, file_type = ''text/plain''\<rparr>
        initialApp
      = initialApp\<lparr>errorMsg := Some tooLargeMessage\<rparr>"
  using processFile_invalid_type [where url = "''blob:1''" and st = initialApp and f =
      "\<lparr>file_name = ''notes.txt'', file_size = 1024, file_type = ''text/plain''\<rparr>"]
    processFile_invalid_type [where url = "''blob:1''" and st = initialApp and f =
      "\<lparr>file_name = ''notes.txt'', file_size = 20 * 1024 * 1024 + 1, file_type = ''text/plain''\<rparr>"]
  by simp

subsection \<open>Generation\<close>

text \<open>
  C5, as the specification states it, fails: the step from Processing to Error does
  not clear the result. In the example session a first generation has succeeded; a
  second one is started, which puts the session in status \<^verbatim>\<open>PROCESSING\<close>, and
  fails. The session is then in status \<^verbatim>\<open>ERROR\<close> and still holds the text of the
  first generation.
\<close>

theorem error_state_keeps_stale_result:
  "status (handleProcess_begin afterSuccess) = PROCESSING
   \<and> handleProcess (CallRejected (Error ''503'')) afterSuccess
       = handleProcess_resume (snd (generateEmpenhoDescription (CallRejected (Error ''503''))))
           (handleProcess_begin afterSuccess)
   \<and> status (handleProcess (CallRejected (Error ''503'')) afterSuccess) = ERROR
   \<and> generatedText (handleProcess (CallRejected (Error ''503'')) afterSuccess)
       = ''PELA DESPESA EMPENHADA REFERENTE A MATERIAL''"
  by (simp add: afterSuccess_eq handleProcess_def handleProcess_begin_def
      handleProcess_resume_def generateEmpenhoDescription_def)

text \<open>
  C5, amended. When the generation fails, the session goes to status \<^verbatim>\<open>ERROR\<close> and
  stores the message of the error (the fallback message when the value thrown is no
  \<^verbatim>\<open>Error\<close>); the generated text, the file and the edit mode are left as they were.
\<close>

theorem handleProcess_resume_failure:
  "status (handleProcess_resume (Inl err) st) = ERROR
   \<and> errorMsg (handleProcess_resume (Inl err) st)
       = Some (case err of Error m \<Rightarrow> m | NotAnError \<Rightarrow> unknownErrorMessage)
   \<and> generatedText (handleProcess_resume (Inl err) st) = generatedText st
   \<and> fileData (handleProcess_resume (Inl err) st) = fileData st
   \<and> isEditing (handleProcess_resume (Inl err) st) = isEditing st"
  by (simp add: handleProcess_resume_def)

text \<open>
  C6. Whatever the error \<open>e\<close> that the reading of the file or the call of the model
  raises, \<^verbatim>\<open>generateEmpenhoDescription\<close> throws an \<^verbatim>\<open>Error\<close> with the fixed message
  of the service, \<^verbatim>\<open>Falha ao processar o documento\<close> and so on, spelled out below.
  The error \<open>e\<close> goes to the console and nowhere else: what the caller gets does not
  depend on it, and the message the session stores is the fixed one.
\<close>

theorem generation_failure_message:
  "snd (generateEmpenhoDescription (ReadRejected e)) = Inl (Error GenerationErrorMessage)
   \<and> snd (generateEmpenhoDescription (CallRejected e)) = Inl (Error GenerationErrorMessage)
   \<and> fst (generateEmpenhoDescription (ReadRejected e)) = [e]
   \<and> fst (generateEmpenhoDescription (CallRejected e)) = [e]
   \<and> errorMsg (handleProcess_resume (snd (generateEmpenhoDescription (CallRejected e))) st)
       = Some GenerationErrorMessage
   \<and> GenerationErrorMessage =
       ''Falha ao processar o documento. Verifique se o arquivo '' @ [CHR 0xE9] @
       '' v'' @ [CHR 0xE1] @ ''lido e tente novamente.''"
  by (simp add: generateEmpenhoDescription_def handleProcess_resume_def)
    (simp add: GenerationErrorMessage_def)

text \<open>
  C7. A response without text, or with the empty text, does not make the generation
  fail: the empty string goes through the normalizer and the function returns the
  normalized text, \<^verbatim>\<open>PELA DESPESA EMPENHADA REFERENTE A \<close>.
\<close>

theorem empty_response_is_normalized:
  "generateEmpenhoDescription (Responded None) = ([], Inr (normalizeText []))
   \<and> generateEmpenhoDescription (Responded (Some [])) = ([], Inr (normalizeText []))
   \<and> normalizeText [] = ''PELA DESPESA EMPENHADA REFERENTE A ''"
  by (simp add: generateEmpenhoDescription_def orEmpty_def normalizeText_empty)

subsection \<open>Reset and edit\<close>

text \<open>
  C8. From any state \<^verbatim>\<open>handleReset\<close> gives the same session: no file, the empty
  result, no error message, status \<^verbatim>\<open>IDLE\<close>, edit mode off. It is the initial
  session, but for the drag indicator, which a reset does not touch.
\<close>

theorem handleReset_result:
  "fileData (handleReset st) = None
   \<and> generatedText (handleReset st) = []
   \<and> errorMsg (handleReset st) = None
   \<and> status (handleReset st) = IDLE
   \<and> isEditing (handleReset st) = False
   \<and> handleReset st = initialApp\<lparr>isDragging := isDragging st\<rparr>"
  by (simp add: handleReset_def initialApp_def)

text \<open>
  C9. An edit of the result stores the upper-cased form of the text the user typed
  and changes nothing else. The rules of the normalizer on prefix and asterisks are
  not applied: the edit \<^verbatim>\<open>a **b**\<close> is stored as \<^verbatim>\<open>A **B**\<close>, where the
  normalizer would give \<^verbatim>\<open>PELA DESPESA EMPENHADA REFERENTE A A B\<close>.
\<close>

theorem textarea_onChange_uppercases_only:
  "generatedText (textarea_onChange v st) = toUpperCase v
   \<and> textarea_onChange v st = st\<lparr>generatedText := toUpperCase v\<rparr>
   \<and> generatedText (textarea_onChange ''a **b**'' st) = ''A **B**''
   \<and> normalizeText ''a **b**'' = ''PELA DESPESA EMPENHADA REFERENTE A A B''"
  by (simp add: textarea_onChange_def toUpperCase_edit_example normalizeText_edit_example)

end
